theory Spec2Isabelle
  imports Complex_Main "HOL-Library.AList"
begin

section \<open>Tables\<close>

text \<open>
  The pipeline exchanges pandas DataFrames. A cell holds an exact number (the model
  computes with rationals where pandas computes with binary floats), a text, a truth
  value, a timestamp or a monthly period; a missing cell (NaN, NaT, None) is \<open>None\<close>.
  A row maps column names to cells, and a frame is its ordered column index together
  with its rows. Only the columns named in the index are part of the table.
  Columns are taken to be homogeneously typed, as pandas columns are after the
  type enforcement of the raw tier, and column labels to be distinct. A timestamp is
  a calendar day with the time elapsed within it.
\<close>

datatype datetime = Datetime (dt_year: int) (dt_month: nat) (dt_day: nat) (dt_time: nat)

datatype val =
    Num rat
  | Str string
  | Bool bool
  | Time datetime
  | Period int nat

type_synonym cell = "val option"

type_synonym row = "string \<Rightarrow> cell"

record frame =
  columns :: "string list"
  rows :: "row list"

datatype py_error = KeyError | ValueError | IndexError | TypeError

text \<open>\<open>df[col]\<close>: the cells of one column, top to bottom.\<close>

definition column :: "frame \<Rightarrow> string \<Rightarrow> cell list" where
  "column df c = map (\<lambda>r. r c) (rows df)"

text \<open>\<open>len(df)\<close>.\<close>

definition len :: "frame \<Rightarrow> nat" where
  "len df = length (rows df)"

text \<open>\<open>df[c] = v\<close> for a scalar \<open>v\<close>: overwrite the column, or append it to the index.\<close>

definition set_scalar :: "string \<Rightarrow> cell \<Rightarrow> frame \<Rightarrow> frame" where
  "set_scalar c v df =
     \<lparr>columns = (if c \<in> set (columns df) then columns df else columns df @ [c]),
      rows = map (\<lambda>r. r(c := v)) (rows df)\<rparr>"

text \<open>\<open>df[c] = series\<close> for a series aligned with the rows of \<open>df\<close>.\<close>

definition set_series :: "string \<Rightarrow> cell list \<Rightarrow> frame \<Rightarrow> frame" where
  "set_series c vs df =
     \<lparr>columns = (if c \<in> set (columns df) then columns df else columns df @ [c]),
      rows = map (\<lambda>(r, v). r(c := v)) (zip (rows df) vs)\<rparr>"

text \<open>The cells of a frame, row by row, in the order of its column index.\<close>

definition cells :: "frame \<Rightarrow> cell list list" where
  "cells df = map (\<lambda>r. map r (columns df)) (rows df)"

section \<open>Quality gate (utils/data\_quality.py)\<close>

subsection \<open>validate\_nulls\<close>

text \<open>
  \<open>df[col].isna().mean()\<close>: the share of missing cells; the mean of an empty series
  is NaN, which compares false with every threshold.
\<close>

definition null_ratio :: "frame \<Rightarrow> string \<Rightarrow> rat option" where
  "null_ratio df c =
     (if len df = 0 then None
      else Some (of_nat (length (filter (\<lambda>v. v = None) (column df c))) / of_nat (len df)))"

text \<open>\<open>round(x, 4)\<close>: to four decimal places, ties to the even neighbour.\<close>

definition round_half_even :: "rat \<Rightarrow> int" where
  "round_half_even y =
     (let f = \<lfloor>y\<rfloor>; d = y - of_int f
      in if d < 1 / 2 then f
         else if 1 / 2 < d then f + 1
         else if even f then f else f + 1)"

definition round4 :: "rat \<Rightarrow> rat" where
  "round4 x = of_int (round_half_even (x * 10000)) / 10000"

text \<open>
  The loop over \<open>df.columns\<close>; the report is a Python dict, kept as an association
  list in insertion order (\<open>AList.update\<close> overwrites in place or appends).
\<close>

fun validate_nulls_loop ::
  "frame \<Rightarrow> rat \<Rightarrow> string list \<Rightarrow> (string \<times> rat) list \<Rightarrow> (string \<times> rat) list" where
  "validate_nulls_loop df threshold [] null_report = null_report"
| "validate_nulls_loop df threshold (col # cols) null_report =
     (case null_ratio df col of
        None \<Rightarrow> validate_nulls_loop df threshold cols null_report
      | Some ratio \<Rightarrow>
          if threshold < ratio
          then validate_nulls_loop df threshold cols (AList.update col (round4 ratio) null_report)
          else validate_nulls_loop df threshold cols null_report)"

definition validate_nulls :: "frame \<Rightarrow> rat \<Rightarrow> (string \<times> rat) list" where
  "validate_nulls df threshold = validate_nulls_loop df threshold (columns df) []"

subsection \<open>validate\_duplicates\<close>

text \<open>
  \<open>df.duplicated(subset)\<close> marks a row when an earlier row agrees with it on the
  compared columns (missing cells compare equal); a missing or empty \<open>subset\<close> compares
  all columns, and a subset naming an absent column raises KeyError.
\<close>

fun duplicated_from :: "string list \<Rightarrow> row list \<Rightarrow> row list \<Rightarrow> bool list" where
  "duplicated_from cs seen [] = []"
| "duplicated_from cs seen (r # rs) =
     (\<exists>s \<in> set seen. map s cs = map r cs) # duplicated_from cs (seen @ [r]) rs"

definition duplicated :: "frame \<Rightarrow> string list \<Rightarrow> bool list" where
  "duplicated df cs = duplicated_from cs [] (rows df)"

record duplicates_report =
  num_duplicates :: nat
  sample_rows :: "(string \<times> cell) list list"

definition validate_duplicates ::
  "frame \<Rightarrow> string list option \<Rightarrow> py_error + duplicates_report option" where
  "validate_duplicates df subset_cols =
     (let cs = (case subset_cols of None \<Rightarrow> columns df | Some s \<Rightarrow> if s = [] then columns df else s)
      in if \<not> set cs \<subseteq> set (columns df) then Inl KeyError
         else
           let dup_mask = duplicated df cs;
               dups = map fst (filter snd (zip (rows df) dup_mask));
               n = length dups
           in if 0 < n
              then Inr (Some \<lparr>num_duplicates = n,
                     sample_rows = map (\<lambda>r. map (\<lambda>c. (c, r c)) (columns df)) (take 5 dups)\<rparr>)
              else Inr None)"

subsection \<open>validate\_ranges\<close>

text \<open>
  A limit is a dict with optional keys \<open>min\<close> and \<open>max\<close>; a missing key stands for
  minus or plus infinity and is never violated. Comparing a column with a number skips
  missing cells and raises TypeError on text, timestamps and periods.
\<close>

record limits =
  lim_min :: "rat option"
  lim_max :: "rat option"

record range_violation =
  min_violation :: nat
  max_violation :: nat

fun as_number :: "val \<Rightarrow> rat option" where
  "as_number (Num x) = Some x"
| "as_number (Bool b) = Some (if b then 1 else 0)"
| "as_number _ = None"

definition comparable :: "cell list \<Rightarrow> bool" where
  "comparable vs = list_all (\<lambda>v. case v of None \<Rightarrow> True | Some w \<Rightarrow> as_number w \<noteq> None) vs"

definition count_below :: "cell list \<Rightarrow> rat option \<Rightarrow> nat" where
  "count_below vs lo =
     (case lo of None \<Rightarrow> 0
      | Some m \<Rightarrow> length (filter (\<lambda>v. case v of None \<Rightarrow> False
                   | Some w \<Rightarrow> (case as_number w of None \<Rightarrow> False | Some x \<Rightarrow> x < m)) vs))"

definition count_above :: "cell list \<Rightarrow> rat option \<Rightarrow> nat" where
  "count_above vs hi =
     (case hi of None \<Rightarrow> 0
      | Some m \<Rightarrow> length (filter (\<lambda>v. case v of None \<Rightarrow> False
                   | Some w \<Rightarrow> (case as_number w of None \<Rightarrow> False | Some x \<Rightarrow> m < x)) vs))"

fun validate_ranges_loop ::
  "frame \<Rightarrow> (string \<times> limits) list \<Rightarrow> (string \<times> range_violation) list
     \<Rightarrow> py_error + (string \<times> range_violation) list" where
  "validate_ranges_loop df [] range_report = Inr range_report"
| "validate_ranges_loop df ((col, bounds) # rest) range_report =
     (if col \<in> set (columns df)
      then if \<not> comparable (column df col) then Inl TypeError
           else
             let min_violations = count_below (column df col) (lim_min bounds);
                 max_violations = count_above (column df col) (lim_max bounds)
             in if 0 < min_violations \<or> 0 < max_violations
                then validate_ranges_loop df rest
                       (AList.update col
                          \<lparr>min_violation = min_violations, max_violation = max_violations\<rparr>
                          range_report)
                else validate_ranges_loop df rest range_report
      else validate_ranges_loop df rest range_report)"

text \<open>\<open>if not ranges: return {}\<close> covers both \<open>None\<close> and the empty dict.\<close>

definition validate_ranges ::
  "frame \<Rightarrow> (string \<times> limits) list option \<Rightarrow> py_error + (string \<times> range_violation) list" where
  "validate_ranges df ranges =
     (case ranges of
        None \<Rightarrow> Inr []
      | Some rs \<Rightarrow> if rs = [] then Inr [] else validate_ranges_loop df rs [])"


section \<open>Raw tier (transform/bronze\_transform.py, bronze\_transform.py)\<close>

record issues =
  nulls :: "(string \<times> rat) list option"
  duplicates :: "duplicates_report option"
  range_violations :: "(string \<times> range_violation) list option"

text \<open>One call of \<open>log_event\<close>: event type, message and the metadata passed, if any.\<close>

record log_entry =
  event_type :: string
  message :: string
  metadata :: "issues option"

definition no_issues :: issues where
  "no_issues = \<lparr>nulls = None, duplicates = None, range_violations = None\<rparr>"

text \<open>
  \<open>run_data_quality\<close> of the raw tier: the three validators with their default
  arguments, the sub-reports that are non-empty collected under their keys, one audit
  event, and the frame handed back unchanged.
\<close>

definition run_data_quality :: "frame \<Rightarrow> string \<Rightarrow> py_error + frame \<times> log_entry" where
  "run_data_quality df cube_name =
     (let null_report = validate_nulls df 0 in
      case validate_duplicates df None of
        Inl e \<Rightarrow> Inl e
      | Inr duplicates_report \<Rightarrow>
          (case validate_ranges df None of
             Inl e \<Rightarrow> Inl e
           | Inr ranges_report \<Rightarrow>
               let found = \<lparr>nulls = (if null_report \<noteq> [] then Some null_report else None),
                             duplicates = duplicates_report,
                             range_violations =
                               (if ranges_report \<noteq> [] then Some ranges_report else None)\<rparr>
               in if found \<noteq> no_issues
                  then Inr (df, \<lparr>event_type = ''data_quality_issues'',
                                 message = ''Cube '' @ cube_name @ '' failed validation'',
                                 metadata = Some found\<rparr>)
                  else Inr (df, \<lparr>event_type = ''data_quality_pass'',
                                 message = ''Cube '' @ cube_name @ '' passed all validation checks'',
                                 metadata = None\<rparr>)))"

definition PARTITION_COLUMN :: string where
  "PARTITION_COLUMN = ''partition_month''"

text \<open>
  \<open>pd.to_datetime\<close>: a timestamp is kept, a missing cell stays missing, and anything
  else goes through pandas' conversion \<open>conv\<close>, a parameter of the model; a value it
  rejects raises.
\<close>

fun to_datetime_cell :: "(val \<Rightarrow> datetime option) \<Rightarrow> cell \<Rightarrow> py_error + datetime option" where
  "to_datetime_cell conv None = Inr None"
| "to_datetime_cell conv (Some (Time d)) = Inr (Some d)"
| "to_datetime_cell conv (Some v) =
     (case conv v of None \<Rightarrow> Inl ValueError | Some d \<Rightarrow> Inr (Some d))"

fun to_datetime :: "(val \<Rightarrow> datetime option) \<Rightarrow> cell list \<Rightarrow> py_error + datetime option list" where
  "to_datetime conv [] = Inr []"
| "to_datetime conv (v # vs) =
     (case to_datetime_cell conv v of
        Inl e \<Rightarrow> Inl e
      | Inr d \<Rightarrow> (case to_datetime conv vs of Inl e \<Rightarrow> Inl e | Inr ds \<Rightarrow> Inr (d # ds)))"

text \<open>\<open>.dt.to_period('M')\<close>: truncation to the month.\<close>

definition to_period_M :: "datetime option \<Rightarrow> cell" where
  "to_period_M d = (case d of None \<Rightarrow> None | Some t \<Rightarrow> Some (Period (dt_year t) (dt_month t)))"

text \<open>
  \<open>add_metadata_columns\<close> reads the clock twice: \<open>now\<close> stamps the extraction time,
  \<open>today\<close> feeds the fallback partition.
\<close>

definition add_metadata_columns ::
  "(val \<Rightarrow> datetime option) \<Rightarrow> datetime \<Rightarrow> datetime \<Rightarrow> frame \<Rightarrow> string \<Rightarrow> py_error + frame" where
  "add_metadata_columns conv now today df cube_name =
     (let df1 = set_scalar ''cube_name'' (Some (Str cube_name)) df;
          df2 = set_scalar ''bronze_extraction_time'' (Some (Time now)) df1
      in if PARTITION_COLUMN \<notin> set (columns df2)
         then if ''Date'' \<in> set (columns df2)
              then (case to_datetime conv (column df2 ''Date'') of
                      Inl e \<Rightarrow> Inl e
                    | Inr ds \<Rightarrow> Inr (set_series PARTITION_COLUMN (map to_period_M ds) df2))
              else Inr (set_scalar PARTITION_COLUMN
                          (Some (Period (dt_year today) (dt_month today))) df2)
         else Inr df2)"

text \<open>
  \<open>save_bronze\<close> of the top-level module: the partition column's name comes from the
  configuration file; the result is the frame written to storage.
\<close>

definition save_bronze ::
  "(val \<Rightarrow> datetime option) \<Rightarrow> string \<Rightarrow> frame \<Rightarrow> py_error + frame" where
  "save_bronze conv PARTITION_COL df =
     (if PARTITION_COL \<notin> set (columns df)
      then if ''Date'' \<in> set (columns df)
           then (case to_datetime conv (column df ''Date'') of
                   Inl e \<Rightarrow> Inl e
                 | Inr ds \<Rightarrow> Inr (set_series PARTITION_COL (map to_period_M ds) df))
           else Inr (set_scalar PARTITION_COL (Some (Period 2025 11)) df)
      else Inr df)"

text \<open>The partition values a stage result carries, or the error it raised.\<close>

definition partition_values :: "string \<Rightarrow> py_error + frame \<Rightarrow> py_error + cell list" where
  "partition_values p res = (case res of Inl e \<Rightarrow> Inl e | Inr out \<Rightarrow> Inr (column out p))"


section \<open>Dimensional and history tier (transform/silver\_transform.py)\<close>

definition SCD_TYPE2_COLUMNS :: "string list" where
  "SCD_TYPE2_COLUMNS = [''Sales'', ''Quantity'']"

subsection \<open>Surrogate keys and dimensions\<close>

text \<open>\<open>sep.join(parts)\<close>.\<close>

fun join :: "string \<Rightarrow> string list \<Rightarrow> string" where
  "join sep [] = []"
| "join sep [x] = x"
| "join sep (x # y # zs) = x @ sep @ join sep (y # zs)"

text \<open>
  \<open>generate_surrogate_key\<close>: the MD5 hex digest of the values' \<open>str\<close> forms joined by
  an underscore. The digest function of \<open>hashlib\<close> and Python's \<open>str\<close> are parameters.
\<close>

definition generate_surrogate_key ::
  "(string \<Rightarrow> string) \<Rightarrow> (cell \<Rightarrow> string) \<Rightarrow> cell list \<Rightarrow> string" where
  "generate_surrogate_key md5_hexdigest str_of args =
     (let concat_str = join ''_'' (map str_of args) in md5_hexdigest concat_str)"

text \<open>\<open>drop_duplicates\<close> keeps the first occurrence of every value.\<close>

fun drop_duplicates_from :: "'a list \<Rightarrow> 'a list \<Rightarrow> 'a list" where
  "drop_duplicates_from seen [] = []"
| "drop_duplicates_from seen (x # xs) =
     (if x \<in> set seen then drop_duplicates_from seen xs
      else x # drop_duplicates_from (x # seen) xs)"

definition drop_duplicates :: "'a list \<Rightarrow> 'a list" where
  "drop_duplicates xs = drop_duplicates_from [] xs"

text \<open>\<open>df[[col]].drop_duplicates().copy()\<close>: a one-column frame.\<close>

definition distinct_column :: "frame \<Rightarrow> string \<Rightarrow> frame" where
  "distinct_column df col =
     \<lparr>columns = [col],
      rows = map (\<lambda>v. (\<lambda>_. None)(col := v)) (drop_duplicates (column df col))\<rparr>"

text \<open>
  \<open>int(x.strftime("%Y%m%d"))\<close>: defined on timestamps only; a missing date or a value
  of another type raises.
\<close>

fun date_key :: "cell \<Rightarrow> py_error + cell" where
  "date_key (Some (Time d)) =
     Inr (Some (Num (of_int (dt_year d * 10000 + int (dt_month d) * 100 + int (dt_day d)))))"
| "date_key _ = Inl ValueError"

fun date_keys :: "cell list \<Rightarrow> py_error + cell list" where
  "date_keys [] = Inr []"
| "date_keys (v # vs) =
     (case date_key v of
        Inl e \<Rightarrow> Inl e
      | Inr k \<Rightarrow> (case date_keys vs of Inl e \<Rightarrow> Inl e | Inr ks \<Rightarrow> Inr (k # ks)))"

text \<open>One hashed dimension: \<open>dim[col + "Key"] = dim[col].apply(generate_surrogate_key)\<close>.\<close>

definition hashed_dimension ::
  "(string \<Rightarrow> string) \<Rightarrow> (cell \<Rightarrow> string) \<Rightarrow> frame \<Rightarrow> string \<Rightarrow> frame" where
  "hashed_dimension md5_hexdigest str_of df col =
     (let dim = distinct_column df col
      in set_series (col @ ''Key'')
           (map (\<lambda>x. Some (Str (generate_surrogate_key md5_hexdigest str_of [x]))) (column dim col))
           dim)"

fun region_dimensions ::
  "(string \<Rightarrow> string) \<Rightarrow> (cell \<Rightarrow> string) \<Rightarrow> frame \<Rightarrow> string list
     \<Rightarrow> (string \<times> frame) list \<Rightarrow> (string \<times> frame) list" where
  "region_dimensions md5_hexdigest str_of df [] dims = dims"
| "region_dimensions md5_hexdigest str_of df (col # region_cols) dims =
     (if col \<in> set (columns df)
      then region_dimensions md5_hexdigest str_of df region_cols
             (AList.update (''Dim'' @ col) (hashed_dimension md5_hexdigest str_of df col) dims)
      else region_dimensions md5_hexdigest str_of df region_cols dims)"

definition build_dimensions ::
  "(string \<Rightarrow> string) \<Rightarrow> (cell \<Rightarrow> string) \<Rightarrow> frame \<Rightarrow> py_error + (string \<times> frame) list" where
  "build_dimensions md5_hexdigest str_of df =
     (case (if ''Date'' \<in> set (columns df)
            then (let dim_date = distinct_column df ''Date''
                  in case date_keys (column dim_date ''Date'') of
                       Inl e \<Rightarrow> Inl e
                     | Inr ks \<Rightarrow> Inr [(''DimDate'', set_series ''DateKey'' ks dim_date)])
            else Inr []) of
        Inl e \<Rightarrow> Inl e
      | Inr dims0 \<Rightarrow>
          let dims1 = region_dimensions md5_hexdigest str_of df
                        [''Region'', ''Country'', ''City''] dims0;
              dims2 = (if ''Product'' \<in> set (columns df)
                       then AList.update ''DimProduct''
                              (hashed_dimension md5_hexdigest str_of df ''Product'') dims1
                       else dims1)
          in Inr dims2)"

subsection \<open>History merge\<close>

text \<open>
  \<open>pd.merge(left, right, on=keys, how="left", indicator=True)\<close>. Every key must be a
  column of both frames and the indicator's name must be free. A column other than a
  key that both frames carry is suffixed \<open>_x\<close> on the left and \<open>_y\<close> on the right.
  Each left row is paired, in order, with every right row that agrees with it on all
  keys (missing keys agree with missing keys) and marked \<open>both\<close>; a left row with no
  partner appears once, with the right columns missing, marked \<open>left_only\<close>.
\<close>

definition overlapping :: "frame \<Rightarrow> frame \<Rightarrow> string list \<Rightarrow> string \<Rightarrow> bool" where
  "overlapping left right keys c \<longleftrightarrow>
     c \<in> set (columns left) \<and> c \<in> set (columns right) \<and> c \<notin> set keys"

definition left_labels :: "frame \<Rightarrow> frame \<Rightarrow> string list \<Rightarrow> string list" where
  "left_labels left right keys =
     map (\<lambda>c. if overlapping left right keys c then c @ ''_x'' else c) (columns left)"

definition right_columns :: "frame \<Rightarrow> string list \<Rightarrow> string list" where
  "right_columns right keys = filter (\<lambda>c. c \<notin> set keys) (columns right)"

definition right_labels :: "frame \<Rightarrow> frame \<Rightarrow> string list \<Rightarrow> string list" where
  "right_labels left right keys =
     map (\<lambda>c. if overlapping left right keys c then c @ ''_y'' else c) (right_columns right keys)"

definition merged_labels :: "frame \<Rightarrow> frame \<Rightarrow> string list \<Rightarrow> string list" where
  "merged_labels left right keys =
     left_labels left right keys @ right_labels left right keys @ [''_merge'']"

definition row_of_cells :: "string list \<Rightarrow> cell list \<Rightarrow> row" where
  "row_of_cells names cs = (\<lambda>n. case map_of (zip names cs) n of None \<Rightarrow> None | Some c \<Rightarrow> c)"

definition partners :: "string list \<Rightarrow> frame \<Rightarrow> row \<Rightarrow> row list" where
  "partners keys right l = filter (\<lambda>r. map l keys = map r keys) (rows right)"

definition unmatched_row :: "frame \<Rightarrow> frame \<Rightarrow> string list \<Rightarrow> row \<Rightarrow> row" where
  "unmatched_row left right keys l =
     row_of_cells (merged_labels left right keys)
       (map l (columns left) @ map (\<lambda>_. None) (right_columns right keys)
          @ [Some (Str ''left_only'')])"

definition matched_row :: "frame \<Rightarrow> frame \<Rightarrow> string list \<Rightarrow> row \<Rightarrow> row \<Rightarrow> row" where
  "matched_row left right keys l r =
     row_of_cells (merged_labels left right keys)
       (map l (columns left) @ map r (right_columns right keys) @ [Some (Str ''both'')])"

definition merged_rows :: "frame \<Rightarrow> frame \<Rightarrow> string list \<Rightarrow> row \<Rightarrow> row list" where
  "merged_rows left right keys l =
     (let ms = partners keys right l
      in if ms = [] then [unmatched_row left right keys l]
         else map (matched_row left right keys l) ms)"

definition pd_merge_left :: "frame \<Rightarrow> frame \<Rightarrow> string list \<Rightarrow> py_error + frame" where
  "pd_merge_left left right keys =
     (if \<not> (set keys \<subseteq> set (columns left) \<and> set keys \<subseteq> set (columns right)) then Inl KeyError
      else if \<exists>i \<in> {''_merge'', ''_left_indicator'', ''_right_indicator''}.
                i \<in> set (columns left) \<union> set (columns right)
      then Inl ValueError
      else Inr \<lparr>columns = merged_labels left right keys,
                rows = concat (map (merged_rows left right keys) (rows left))\<rparr>)"

text \<open>\<open>df[cols]\<close>: column selection; a label that is not in the index raises KeyError.\<close>

definition select_columns :: "frame \<Rightarrow> string list \<Rightarrow> py_error + frame" where
  "select_columns df cols =
     (if set cols \<subseteq> set (columns df)
      then Inr \<lparr>columns = cols, rows = map (\<lambda>r. r |` set cols) (rows df)\<rparr>
      else Inl KeyError)"

text \<open>
  \<open>df.loc[mask, c] = v\<close>: the rows selected by the mask get \<open>v\<close>; a column that did
  not exist is created, missing in all other rows.
\<close>

definition loc_set :: "(row \<Rightarrow> bool) \<Rightarrow> string \<Rightarrow> cell \<Rightarrow> frame \<Rightarrow> frame" where
  "loc_set sel c v df =
     \<lparr>columns = (if c \<in> set (columns df) then columns df else columns df @ [c]),
      rows = map (\<lambda>r. if sel r then r(c := v)
                       else if c \<in> set (columns df) then r else r(c := None)) (rows df)\<rparr>"

text \<open>
  \<open>pd.concat([a, b], ignore_index=True)\<close>: the rows of \<open>a\<close>, then those of \<open>b\<close>,
  over the union of the columns; a cell of a column the frame did not have is missing.
\<close>

definition pd_concat :: "frame \<Rightarrow> frame \<Rightarrow> frame" where
  "pd_concat a b =
     \<lparr>columns = columns a @ filter (\<lambda>c. c \<notin> set (columns a)) (columns b),
      rows = map (\<lambda>r. r |` set (columns a)) (rows a) @ map (\<lambda>r. r |` set (columns b)) (rows b)\<rparr>"

text \<open>
  \<open>apply_scd_type2\<close>. The batch is copied and tagged. \<open>historical_df\<close> is the
  caller's object and is updated in place, so the model returns it next to the result:
  the pair is (what the call returns or raises, the history frame afterwards).
\<close>

definition tag_batch :: "datetime \<Rightarrow> frame \<Rightarrow> frame" where
  "tag_batch now df =
     set_scalar ''CurrentFlag'' (Some (Bool True))
       (set_scalar ''EndDate'' None
          (set_scalar ''EffectiveDate'' (Some (Time now)) df))"

definition apply_scd_type2 ::
  "datetime \<Rightarrow> frame \<Rightarrow> frame option \<Rightarrow> (py_error + frame) \<times> frame option" where
  "apply_scd_type2 now df0 historical_df =
     (let df = tag_batch now df0 in
      case historical_df of
        None \<Rightarrow> (Inr df, None)
      | Some hist \<Rightarrow>
          (case pd_merge_left df hist (''cube_name'' # SCD_TYPE2_COLUMNS) of
             Inl e \<Rightarrow> (Inl e, Some hist)
           | Inr merged \<Rightarrow>
               let updated = merged\<lparr>rows := filter (\<lambda>r. r ''_merge'' = Some (Str ''left_only''))
                                                (rows merged)\<rparr>
               in if rows updated \<noteq> []
                  then
                    let outdated = (\<lambda>r. r ''cube_name'' \<in> set (column updated ''cube_name''));
                        hist1 = loc_set outdated ''CurrentFlag'' (Some (Bool False)) hist;
                        hist2 = loc_set outdated ''EndDate'' (Some (Time now)) hist1
                    in (case select_columns updated (columns df) of
                          Inl e \<Rightarrow> (Inl e, Some hist2)
                        | Inr new_rows \<Rightarrow> (Inr (pd_concat hist2 new_rows), Some hist2))
                  else (Inr df, Some hist)))"



definition is_closed :: "row \<Rightarrow> bool" where
  "is_closed r \<longleftrightarrow> r ''EndDate'' \<noteq> None"



section \<open>Aggregation tier (transform/gold\_transform.py)\<close>

text \<open>
  Arithmetic on a column reads its cells as numbers: missing cells stay missing, truth
  values count as 0 and 1, and text, timestamps and periods raise TypeError.
\<close>

fun numbers :: "cell list \<Rightarrow> py_error + rat option list" where
  "numbers [] = Inr []"
| "numbers (None # vs) =
     (case numbers vs of Inl e \<Rightarrow> Inl e | Inr xs \<Rightarrow> Inr (None # xs))"
| "numbers (Some v # vs) =
     (case as_number v of
        None \<Rightarrow> Inl TypeError
      | Some x \<Rightarrow> (case numbers vs of Inl e \<Rightarrow> Inl e | Inr xs \<Rightarrow> Inr (Some x # xs)))"





section \<open>KPI functions (utils/metrics.py)\<close>

text \<open>The values of a numeric series that are present (pandas skips missing cells).\<close>

definition present :: "rat option list \<Rightarrow> rat list" where
  "present xs = map the (filter (\<lambda>x. x \<noteq> None) xs)"

definition series_sum :: "rat option list \<Rightarrow> cell" where
  "series_sum xs = Some (Num (sum_list (present xs)))"

definition series_mean :: "rat option list \<Rightarrow> cell" where
  "series_mean xs =
     (let ps = present xs
      in if ps = [] then None else Some (Num (sum_list ps / of_nat (length ps))))"

definition series_max :: "rat option list \<Rightarrow> cell" where
  "series_max xs = (let ps = present xs in if ps = [] then None else Some (Num (Max (set ps))))"

definition series_min :: "rat option list \<Rightarrow> cell" where
  "series_min xs = (let ps = present xs in if ps = [] then None else Some (Num (Min (set ps))))"

definition total :: "frame \<Rightarrow> string \<Rightarrow> py_error + cell" where
  "total df c =
     (if c \<in> set (columns df)
      then (case numbers (column df c) of Inl e \<Rightarrow> Inl e | Inr xs \<Rightarrow> Inr (series_sum xs))
      else Inr (Some (Num 0)))"

definition mean :: "frame \<Rightarrow> string \<Rightarrow> py_error + cell" where
  "mean df c =
     (if c \<in> set (columns df) \<and> 0 < len df
      then (case numbers (column df c) of Inl e \<Rightarrow> Inl e | Inr xs \<Rightarrow> Inr (series_mean xs))
      else Inr (Some (Num 0)))"

definition maximum :: "frame \<Rightarrow> string \<Rightarrow> py_error + cell" where
  "maximum df c =
     (if c \<in> set (columns df) \<and> 0 < len df
      then (case numbers (column df c) of Inl e \<Rightarrow> Inl e | Inr xs \<Rightarrow> Inr (series_max xs))
      else Inr (Some (Num 0)))"

definition minimum :: "frame \<Rightarrow> string \<Rightarrow> py_error + cell" where
  "minimum df c =
     (if c \<in> set (columns df) \<and> 0 < len df
      then (case numbers (column df c) of Inl e \<Rightarrow> Inl e | Inr xs \<Rightarrow> Inr (series_min xs))
      else Inr (Some (Num 0)))"

text \<open>\<open>cumsum\<close>: the running sum skips a missing cell and leaves it missing.\<close>

fun cumsum_from :: "rat \<Rightarrow> rat option list \<Rightarrow> cell list" where
  "cumsum_from acc [] = []"
| "cumsum_from acc (None # xs) = None # cumsum_from acc xs"
| "cumsum_from acc (Some x # xs) = Some (Num (acc + x)) # cumsum_from (acc + x) xs"

definition cumsum :: "rat option list \<Rightarrow> cell list" where
  "cumsum xs = cumsum_from 0 xs"

text \<open>
  \<open>rolling(window, min_periods=1).mean()\<close>: at position \<open>i\<close> the window is the last
  \<open>window\<close> positions up to and including \<open>i\<close>, cut off at the start of the series;
  its mean is taken over the cells present and is missing when none is.
\<close>

definition rolling_window :: "nat \<Rightarrow> 'a list \<Rightarrow> nat \<Rightarrow> 'a list" where
  "rolling_window w xs i = map (\<lambda>j. xs ! j) [Suc i - w ..< Suc i]"

definition rolling_mean :: "nat \<Rightarrow> rat option list \<Rightarrow> cell list" where
  "rolling_mean w xs = map (\<lambda>i. series_mean (rolling_window w xs i)) [0 ..< length xs]"

text \<open>
  \<open>df.groupby(group_by)[column]\<close> followed by a transformation that runs along each
  group separately: the value at row \<open>i\<close> is the last value of the transformed series
  of the rows up to \<open>i\<close> in the group of row \<open>i\<close>. Rows with a missing group key belong
  to no group and get a missing value.
\<close>

definition group_upto :: "string list \<Rightarrow> row list \<Rightarrow> rat option list \<Rightarrow> nat \<Rightarrow> rat option list" where
  "group_upto group_by rs xs i =
     map snd (filter (\<lambda>(r, x). map r group_by = map (rs ! i) group_by) (take (Suc i) (zip rs xs)))"

definition grouped ::
  "(rat option list \<Rightarrow> cell list) \<Rightarrow> string list \<Rightarrow> row list \<Rightarrow> rat option list \<Rightarrow> cell list" where
  "grouped f group_by rs xs =
     map (\<lambda>i. if None \<in> set (map (rs ! i) group_by) then None
               else last (f (group_upto group_by rs xs i))) [0 ..< length rs]"

definition cumulative :: "frame \<Rightarrow> string \<Rightarrow> string list option \<Rightarrow> py_error + cell list" where
  "cumulative df c group_by =
     (if c \<notin> set (columns df) then Inr (replicate (len df) (Some (Num 0)))
      else case group_by of
        Some (g # gs) \<Rightarrow>
          if \<not> set (g # gs) \<subseteq> set (columns df) then Inl KeyError
          else (case numbers (column df c) of
                  Inl e \<Rightarrow> Inl e
                | Inr xs \<Rightarrow> Inr (grouped cumsum (g # gs) (rows df) xs))
      | _ \<Rightarrow> (case numbers (column df c) of Inl e \<Rightarrow> Inl e | Inr xs \<Rightarrow> Inr (cumsum xs)))"

text \<open>
  \<open>rolling_average\<close>. pandas rejects a negative window, and a window smaller than
  \<open>min_periods = 1\<close>, with ValueError when the rolling object is built.
\<close>

definition rolling_average ::
  "frame \<Rightarrow> string \<Rightarrow> int \<Rightarrow> string list option \<Rightarrow> py_error + cell list" where
  "rolling_average df c window group_by =
     (if c \<notin> set (columns df) then Inr (replicate (len df) (Some (Num 0)))
      else case group_by of
        Some (g # gs) \<Rightarrow>
          if \<not> set (g # gs) \<subseteq> set (columns df) then Inl KeyError
          else (case numbers (column df c) of
                  Inl e \<Rightarrow> Inl e
                | Inr xs \<Rightarrow>
                    if window < 1 \<and> rows df \<noteq> [] then Inl ValueError
                    else Inr (grouped (rolling_mean (nat window)) (g # gs) (rows df) xs))
      | _ \<Rightarrow>
          if window < 1 then Inl ValueError
          else (case numbers (column df c) of
                  Inl e \<Rightarrow> Inl e
                | Inr xs \<Rightarrow> Inr (rolling_mean (nat window) xs)))"

text \<open>\<open>series.iloc[-1]\<close>: the last element; IndexError on an empty series.\<close>

definition iloc_last :: "cell list \<Rightarrow> py_error + cell" where
  "iloc_last xs = (if xs = [] then Inl IndexError else Inr (last xs))"

text \<open>\<open>str.lower\<close> on ASCII letters.\<close>

definition lower :: "string \<Rightarrow> string" where
  "lower s = map (\<lambda>c. let n = (of_char c :: nat) in if 65 \<le> n \<and> n \<le> 90 then char_of (n + 32) else c) s"

text \<open>The body of the first loop of \<open>calculate_kpis\<close> for one column.\<close>

definition kpi_block :: "frame \<Rightarrow> string \<Rightarrow> (string \<times> cell) list \<Rightarrow> py_error + (string \<times> cell) list" where
  "kpi_block df col metrics =
     (case total df col of Inl e \<Rightarrow> Inl e | Inr t \<Rightarrow>
      case mean df col of Inl e \<Rightarrow> Inl e | Inr a \<Rightarrow>
      case maximum df col of Inl e \<Rightarrow> Inl e | Inr mx \<Rightarrow>
      case minimum df col of Inl e \<Rightarrow> Inl e | Inr mn \<Rightarrow>
      case cumulative df col None of Inl e \<Rightarrow> Inl e | Inr cs \<Rightarrow>
      case iloc_last cs of Inl e \<Rightarrow> Inl e | Inr c \<Rightarrow>
        Inr (AList.update (''cumulative_'' @ lower col) c
            (AList.update (''min_'' @ lower col) mn
            (AList.update (''max_'' @ lower col) mx
            (AList.update (''avg_'' @ lower col) a
            (AList.update (''total_'' @ lower col) t metrics))))))"

fun kpi_loop :: "frame \<Rightarrow> string list \<Rightarrow> (string \<times> cell) list \<Rightarrow> py_error + (string \<times> cell) list" where
  "kpi_loop df [] metrics = Inr metrics"
| "kpi_loop df (col # cols) metrics =
     (if col \<in> set (columns df)
      then (case kpi_block df col metrics of Inl e \<Rightarrow> Inl e | Inr m \<Rightarrow> kpi_loop df cols m)
      else kpi_loop df cols metrics)"

fun rolling_loop :: "frame \<Rightarrow> string list \<Rightarrow> (string \<times> cell) list \<Rightarrow> py_error + (string \<times> cell) list" where
  "rolling_loop df [] metrics = Inr metrics"
| "rolling_loop df (col # cols) metrics =
     (if col \<in> set (columns df)
      then (case rolling_average df col 3 None of
              Inl e \<Rightarrow> Inl e
            | Inr rs \<Rightarrow> (case iloc_last rs of
                           Inl e \<Rightarrow> Inl e
                         | Inr v \<Rightarrow> rolling_loop df cols
                                     (AList.update (''rolling_avg_'' @ lower col) v metrics)))
      else rolling_loop df cols metrics)"

definition calculate_kpis :: "frame \<Rightarrow> py_error + (string \<times> cell) list" where
  "calculate_kpis df =
     (case kpi_loop df [''Sales'', ''Quantity'', ''Stock''] [] of
        Inl e \<Rightarrow> Inl e
      | Inr metrics \<Rightarrow> rolling_loop df [''Sales'', ''Quantity''] metrics)"


section \<open>Notions of the specification\<close>

text \<open>
  The specification's rolling average: at position \<open>i\<close>, the mean of the last
  \<open>min (i + 1) w\<close> values, taken as pandas takes a mean (over the values present).
\<close>

definition last_values :: "nat \<Rightarrow> 'a list \<Rightarrow> nat \<Rightarrow> 'a list" where
  "last_values m xs i = take m (drop (i + 1 - m) xs)"

definition window_mean :: "nat \<Rightarrow> rat option list \<Rightarrow> nat \<Rightarrow> cell" where
  "window_mean w xs i = series_mean (last_values (min (i + 1) w) xs i)"

section \<open>Example tables\<close>

text \<open>Four rows with Sales = [100, null, 200, 300], and the first three of them.\<close>

definition ex_sales :: frame where
  "ex_sales = \<lparr>columns = [''Sales''],
     rows = [[''Sales'' \<mapsto> Num 100], Map.empty, [''Sales'' \<mapsto> Num 200],
             [''Sales'' \<mapsto> Num 300]]\<rparr>"

definition ex_third :: frame where
  "ex_third = \<lparr>columns = [''Sales''],
     rows = [[''Sales'' \<mapsto> Num 100], Map.empty, [''Sales'' \<mapsto> Num 200]]\<rparr>"

text \<open>A table with a Sales column and no rows.\<close>

definition ex_empty_sales :: frame where
  "ex_empty_sales = \<lparr>columns = [''Sales''], rows = []\<rparr>"

text \<open>Sales = [10, 20, 30, 40].\<close>

definition ex_rolling :: frame where
  "ex_rolling = \<lparr>columns = [''Sales''],
     rows = [[''Sales'' \<mapsto> Num 10], [''Sales'' \<mapsto> Num 20], [''Sales'' \<mapsto> Num 30],
             [''Sales'' \<mapsto> Num 40]]\<rparr>"


text \<open>Two place columns that share the value North.\<close>

definition ex_places :: frame where
  "ex_places = \<lparr>columns = [''Region'', ''City''],
     rows = [[''Region'' \<mapsto> Str ''North'', ''City'' \<mapsto> Str ''Leeds''],
             [''Region'' \<mapsto> Str ''South'', ''City'' \<mapsto> Str ''North'']]\<rparr>"

text \<open>Stand-ins for Python's \<open>str\<close> and for the digest, used in examples only.\<close>

definition toy_str :: "cell \<Rightarrow> string" where
  "toy_str v = (case v of Some (Str s) \<Rightarrow> s | _ \<Rightarrow> ''nan'')"

definition toy_digest :: "string \<Rightarrow> string" where
  "toy_digest s = rev s"

text \<open>A table with a Date column.\<close>

definition ex_dated :: frame where
  "ex_dated = \<lparr>columns = [''Date''],
     rows = [[''Date'' \<mapsto> Time (Datetime 2025 1 15 0)], [''Date'' \<mapsto> Time (Datetime 2024 12 31 7)]]\<rparr>"


definition ex_batch :: frame where
  "ex_batch = \<lparr>columns = [''cube_name'', ''Sales'', ''Quantity''],
     rows = [[''cube_name'' \<mapsto> Str ''a'', ''Sales'' \<mapsto> Num 20, ''Quantity'' \<mapsto> Num 2]]\<rparr>"

definition ex_changed_batch :: frame where
  "ex_changed_batch = \<lparr>columns = [''cube_name'', ''Sales'', ''Quantity''],
     rows = [[''cube_name'' \<mapsto> Str ''a'', ''Sales'' \<mapsto> Num 30, ''Quantity'' \<mapsto> Num 3]]\<rparr>"

definition ex_history :: frame where
  "ex_history =
     \<lparr>columns = [''cube_name'', ''Sales'', ''Quantity'', ''EffectiveDate'', ''EndDate'', ''CurrentFlag''],
      rows = [[''cube_name'' \<mapsto> Str ''a'', ''Sales'' \<mapsto> Num 10, ''Quantity'' \<mapsto> Num 1,
               ''EffectiveDate'' \<mapsto> Time (Datetime 2025 1 1 0),
               ''EndDate'' \<mapsto> Time (Datetime 2025 2 1 0), ''CurrentFlag'' \<mapsto> Bool False],
              [''cube_name'' \<mapsto> Str ''a'', ''Sales'' \<mapsto> Num 20, ''Quantity'' \<mapsto> Num 2,
               ''EffectiveDate'' \<mapsto> Time (Datetime 2025 2 1 0), ''CurrentFlag'' \<mapsto> Bool True]]\<rparr>"


section \<open>The quality gate\<close>







text \<open>
  C10: without a \<open>ranges\<close> argument (or with an empty one) \<open>validate_ranges\<close> returns
  the empty report, so the quality gate of the raw tier, which calls it that way,
  returns for every table and never records a range violation.
\<close>

theorem validate_ranges_default_empty:
  "validate_ranges df None = Inr [] \<and> validate_ranges df (Some []) = Inr [] \<and>
   (\<exists>ev. run_data_quality df cube_name = Inr (df, ev) \<and>
         (case metadata ev of None \<Rightarrow> True | Some found \<Rightarrow> range_violations found = None))"
proof (intro conjI)
  show none: "validate_ranges df None = Inr []"
    by (simp add: validate_ranges_def)
  show "validate_ranges df (Some []) = Inr []"
    by (simp add: validate_ranges_def)
  have "\<exists>dups. validate_duplicates df None = Inr dups"
    by (simp add: validate_duplicates_def Let_def)
  then obtain dups where dups: "validate_duplicates df None = Inr dups"
    by blast
  define found where "found =
    \<lparr>nulls = (if validate_nulls df 0 \<noteq> [] then Some (validate_nulls df 0) else None),
     duplicates = dups, range_violations = None\<rparr>"
  have "run_data_quality df cube_name =
      (if found \<noteq> no_issues
       then Inr (df, \<lparr>event_type = ''data_quality_issues'',
                      message = ''Cube '' @ cube_name @ '' failed validation'',
                      metadata = Some found\<rparr>)
       else Inr (df, \<lparr>event_type = ''data_quality_pass'',
                      message = ''Cube '' @ cube_name @ '' passed all validation checks'',
                      metadata = None\<rparr>))"
    by (simp add: run_data_quality_def none dups found_def Let_def)
  moreover have "range_violations found = None"
    by (simp add: found_def)
  ultimately show "\<exists>ev. run_data_quality df cube_name = Inr (df, ev) \<and>
         (case metadata ev of None \<Rightarrow> True | Some found \<Rightarrow> range_violations found = None)"
    by (cases "found \<noteq> no_issues") simp_all
qed

theorem validate_ranges_default_empty_witness:
  "validate_ranges ex_sales None = Inr [] \<and>
   (\<exists>ev. run_data_quality ex_sales ''sales_cube'' = Inr (ex_sales, ev))"
  using validate_ranges_default_empty [of ex_sales "''sales_cube''"] by blast

section \<open>KPI functions and enrichment\<close>

lemma kpi_neutral_default:
  assumes "c \<notin> set (columns df) \<or> rows df = []"
  shows "total df c = Inr (Some (Num 0)) \<and> mean df c = Inr (Some (Num 0)) \<and>
         maximum df c = Inr (Some (Num 0)) \<and> minimum df c = Inr (Some (Num 0))"
  using assms
  by (auto simp: total_def mean_def maximum_def minimum_def len_def column_def series_sum_def present_def)

text \<open>
  C6 (defect in the code): the four scalar KPIs return 0 on a table without rows, but
  \<open>calculate_kpis\<close> also takes the last element of the cumulative sum, which does
  not exist there, so on a table with a Sales column and no rows it raises IndexError.
\<close>

theorem calculate_kpis_empty_table_raises:
  "total ex_empty_sales ''Sales'' = Inr (Some (Num 0)) \<and>
   mean ex_empty_sales ''Sales'' = Inr (Some (Num 0)) \<and>
   maximum ex_empty_sales ''Sales'' = Inr (Some (Num 0)) \<and>
   minimum ex_empty_sales ''Sales'' = Inr (Some (Num 0)) \<and>
   cumulative ex_empty_sales ''Sales'' None = Inr [] \<and>
   calculate_kpis ex_empty_sales = Inl IndexError"
  by (simp add: calculate_kpis_def kpi_block_def ex_empty_sales_def total_def mean_def maximum_def
      minimum_def cumulative_def iloc_last_def len_def column_def series_sum_def present_def cumsum_def)

lemma map_nth_upt:
  assumes "b \<le> length xs"
  shows "map (\<lambda>j. xs ! j) [a ..< b] = drop a (take b xs)"
proof -
  have "[a ..< b] = drop a (take b [0 ..< length xs])"
    using assms by (simp add: take_upt)
  then have "map (\<lambda>j. xs ! j) [a ..< b] = drop a (take b (map (\<lambda>j. xs ! j) [0 ..< length xs]))"
    by (simp only: drop_map take_map)
  then show ?thesis
    by (simp only: map_nth)
qed

lemma rolling_window_slice:
  assumes "i < length xs"
  shows "rolling_window w xs i = take (min (Suc i) w) (drop (Suc i - min (Suc i) w) xs)"
proof -
  have "rolling_window w xs i = drop (Suc i - w) (take (Suc i) xs)"
    unfolding rolling_window_def by (rule map_nth_upt) (use assms in simp)
  also have "\<dots> = take (Suc i - (Suc i - w)) (drop (Suc i - w) xs)"
    by (simp add: drop_take)
  also have "Suc i - (Suc i - w) = min (Suc i) w"
    by arith
  also have "Suc i - w = Suc i - min (Suc i) w"
    by arith
  finally show ?thesis .
qed

lemma present_all:
  assumes "None \<notin> set xs"
  shows "present xs = map the xs"
proof -
  have "filter (\<lambda>x. x \<noteq> None) xs = xs"
    by (rule filter_True) (metis assms)
  then show ?thesis
    by (simp add: present_def)
qed

text \<open>
  C9: for a numeric column and a window of at least 1, \<open>rolling_average\<close> returns at
  each position \<open>i\<close> the mean of the last \<open>min (i + 1) window\<close> values; when no value
  is missing this is their sum divided by \<open>min (i + 1) window\<close>. Window 3 over
  [10, 20, 30, 40] gives [10, 15, 20, 30].
\<close>

theorem rolling_average_partial_windows:
  assumes "c \<in> set (columns df)" and "1 \<le> window" and "numbers (column df c) = Inr xs"
  shows "rolling_average df c window None = Inr (map (window_mean (nat window) xs) [0 ..< length xs]) \<and>
         (\<forall>i < length xs. None \<notin> set xs \<longrightarrow>
            window_mean (nat window) xs i =
              Some (Num (sum_list (map the (last_values (min (i + 1) (nat window)) xs i))
                         / of_nat (min (i + 1) (nat window))))) \<and>
         rolling_average ex_rolling ''Sales'' 3 None =
           Inr [Some (Num 10), Some (Num 15), Some (Num 20), Some (Num 30)]"
proof (intro conjI allI impI)
  have "map (\<lambda>i. series_mean (rolling_window (nat window) xs i)) [0 ..< length xs] =
        map (window_mean (nat window) xs) [0 ..< length xs]"
    by (rule map_cong) (simp_all add: rolling_window_slice window_mean_def last_values_def)
  then show "rolling_average df c window None = Inr (map (window_mean (nat window) xs) [0 ..< length xs])"
    using assms by (simp add: rolling_average_def rolling_mean_def)
next
  fix i
  assume i: "i < length xs" and nn: "None \<notin> set xs"
  let ?m = "min (i + 1) (nat window)"
  let ?vs = "last_values ?m xs i"
  have len: "length ?vs = ?m"
    using i by (simp add: last_values_def)
  have "set ?vs \<subseteq> set xs"
    unfolding last_values_def by (meson set_drop_subset set_take_subset subset_trans)
  then have "None \<notin> set ?vs"
    using nn by blast
  then have p: "present ?vs = map the ?vs"
    by (rule present_all)
  have "0 < ?m"
    using assms(2) by simp
  then have "map the ?vs \<noteq> []"
    using len by (metis length_map less_numeral_extra(3) list.size(3))
  then show "window_mean (nat window) xs i =
      Some (Num (sum_list (map the ?vs) / of_nat ?m))"
    using p len by (simp add: window_mean_def series_mean_def Let_def)
next
  show "rolling_average ex_rolling ''Sales'' 3 None =
           Inr [Some (Num 10), Some (Num 15), Some (Num 20), Some (Num 30)]"
    by (simp add: rolling_average_def ex_rolling_def column_def rolling_mean_def rolling_window_def
        series_mean_def present_def upt_conv_Cons Let_def)
qed

theorem rolling_average_partial_windows_witness:
  "rolling_average ex_rolling ''Sales'' 2 None =
     Inr [Some (Num 10), Some (Num 15), Some (Num 25), Some (Num 35)]"
proof -
  have n: "numbers (column ex_rolling ''Sales'') = Inr [Some 10, Some 20, Some 30, Some 40]"
    by (simp add: ex_rolling_def column_def)
  have c: "''Sales'' \<in> set (columns ex_rolling)"
    by (simp add: ex_rolling_def)
  show ?thesis
    using rolling_average_partial_windows [OF c _ n, of 2]
    by (simp add: window_mean_def last_values_def series_mean_def present_def upt_conv_Cons Let_def)
qed



lemma to_datetime_length: "to_datetime conv vs = Inr ds \<Longrightarrow> length ds = length vs"
  by (induction vs arbitrary: ds) (auto split: sum.splits)






section \<open>Partition assignment and surrogate keys\<close>

lemma column_set_scalar: "column (set_scalar c v df) c = replicate (len df) v"
  by (simp add: column_def set_scalar_def len_def comp_def map_replicate_const)

lemma column_set_scalar_other: "c \<noteq> c' \<Longrightarrow> column (set_scalar c v df) c' = column df c'"
  by (simp add: column_def set_scalar_def)

lemma column_set_series:
  "length vs = length (rows df) \<Longrightarrow> column (set_series c vs df) c = vs"
  by (auto simp: column_def set_series_def intro!: nth_equalityI)

lemma len_set_scalar: "len (set_scalar c v df) = len df"
  by (simp add: len_def set_scalar_def)

lemma columns_set_scalar: "set (columns (set_scalar c v df)) = insert c (set (columns df))"
  by (auto simp: set_scalar_def)

text \<open>
  C5, as the claim states it, fails: without a partition and a Date column the
  fallback of \<open>add_metadata_columns\<close> is the month of the clock, so the same table
  gets different partition values on 30 November and on 1 December.
\<close>

theorem partition_fallback_counterexample:
  "partition_values PARTITION_COLUMN
     (add_metadata_columns (\<lambda>_. None) (Datetime 2025 11 30 0) (Datetime 2025 11 30 0) ex_third ''sales'')
   = Inr [Some (Period 2025 11), Some (Period 2025 11), Some (Period 2025 11)] \<and>
   partition_values PARTITION_COLUMN
     (add_metadata_columns (\<lambda>_. None) (Datetime 2025 12 1 0) (Datetime 2025 12 1 0) ex_third ''sales'')
   = Inr [Some (Period 2025 12), Some (Period 2025 12), Some (Period 2025 12)] \<and>
   partition_values PARTITION_COLUMN
     (add_metadata_columns (\<lambda>_. None) (Datetime 2025 11 30 0) (Datetime 2025 11 30 0) ex_third ''sales'')
   \<noteq> partition_values PARTITION_COLUMN
     (add_metadata_columns (\<lambda>_. None) (Datetime 2025 12 1 0) (Datetime 2025 12 1 0) ex_third ''sales'')"
  by (simp add: partition_values_def add_metadata_columns_def PARTITION_COLUMN_def ex_third_def
      set_scalar_def column_def Let_def)

text \<open>
  C5 (amended): an existing partition column is kept; otherwise the partition is the
  month of the Date column; otherwise \<open>add_metadata_columns\<close> falls back to the month
  of the current date and \<open>save_bronze\<close> to the fixed period 2025-11. Two runs of
  \<open>add_metadata_columns\<close> on the same table give the same partition values whenever
  the table has a partition or a Date column, or both runs fall into the same month.
\<close>

theorem partition_assignment:
  "(PARTITION_COLUMN \<in> set (columns df) \<longrightarrow>
      partition_values PARTITION_COLUMN (add_metadata_columns conv now today df cube_name)
        = Inr (column df PARTITION_COLUMN)) \<and>
   (PARTITION_COLUMN \<notin> set (columns df) \<and> ''Date'' \<in> set (columns df) \<longrightarrow>
      partition_values PARTITION_COLUMN (add_metadata_columns conv now today df cube_name)
        = (case to_datetime conv (column df ''Date'') of
             Inl e \<Rightarrow> Inl e | Inr ds \<Rightarrow> Inr (map to_period_M ds))) \<and>
   (PARTITION_COLUMN \<notin> set (columns df) \<and> ''Date'' \<notin> set (columns df) \<longrightarrow>
      partition_values PARTITION_COLUMN (add_metadata_columns conv now today df cube_name)
        = Inr (replicate (len df) (Some (Period (dt_year today) (dt_month today))))) \<and>
   (PARTITION_COLUMN \<in> set (columns df) \<or> ''Date'' \<in> set (columns df) \<or>
      (dt_year today = dt_year today' \<and> dt_month today = dt_month today') \<longrightarrow>
      partition_values PARTITION_COLUMN (add_metadata_columns conv now today df cube_name)
        = partition_values PARTITION_COLUMN (add_metadata_columns conv now' today' df cube_name)) \<and>
   partition_values p (save_bronze conv p df)
     = (if p \<in> set (columns df) then Inr (column df p)
        else if ''Date'' \<in> set (columns df)
        then (case to_datetime conv (column df ''Date'') of
                Inl e \<Rightarrow> Inl e | Inr ds \<Rightarrow> Inr (map to_period_M ds))
        else Inr (replicate (len df) (Some (Period 2025 11))))"
proof -
  let ?df2 = "\<lambda>n. set_scalar ''bronze_extraction_time'' (Some (Time n))
                    (set_scalar ''cube_name'' (Some (Str cube_name)) df)"
  have P: "PARTITION_COLUMN \<in> set (columns (?df2 n)) \<longleftrightarrow> PARTITION_COLUMN \<in> set (columns df)" for n
    by (simp add: columns_set_scalar PARTITION_COLUMN_def)
  have D: "''Date'' \<in> set (columns (?df2 n)) \<longleftrightarrow> ''Date'' \<in> set (columns df)" for n
    by (simp add: columns_set_scalar)
  have cP: "column (?df2 n) PARTITION_COLUMN = column df PARTITION_COLUMN" for n
    by (simp add: column_set_scalar_other PARTITION_COLUMN_def)
  have cD: "column (?df2 n) ''Date'' = column df ''Date''" for n
    by (simp add: column_set_scalar_other)
  have L: "len (?df2 n) = len df" for n
    by (simp add: len_set_scalar)
  have a: "partition_values PARTITION_COLUMN (add_metadata_columns conv n t df cube_name)
        = Inr (column df PARTITION_COLUMN)" if "PARTITION_COLUMN \<in> set (columns df)" for n t
    using that P [of n] cP [of n] by (simp add: add_metadata_columns_def partition_values_def Let_def)
  have b: "partition_values PARTITION_COLUMN (add_metadata_columns conv n t df cube_name)
        = (case to_datetime conv (column df ''Date'') of
             Inl e \<Rightarrow> Inl e | Inr ds \<Rightarrow> Inr (map to_period_M ds))"
    if "PARTITION_COLUMN \<notin> set (columns df)" "''Date'' \<in> set (columns df)" for n t
  proof (cases "to_datetime conv (column df ''Date'')")
    case (Inl e)
    then show ?thesis
      using that P [of n] D [of n] cD [of n]
      by (simp add: add_metadata_columns_def partition_values_def Let_def)
  next
    case (Inr ds)
    have "length (map to_period_M ds) = length (rows (?df2 n))"
      using to_datetime_length [OF Inr] by (simp add: column_def set_scalar_def)
    then have "column (set_series PARTITION_COLUMN (map to_period_M ds) (?df2 n)) PARTITION_COLUMN
        = map to_period_M ds"
      by (rule column_set_series)
    then show ?thesis
      using Inr that P [of n] D [of n] cD [of n]
      by (simp add: add_metadata_columns_def partition_values_def Let_def)
  qed
  have c: "partition_values PARTITION_COLUMN (add_metadata_columns conv n t df cube_name)
        = Inr (replicate (len df) (Some (Period (dt_year t) (dt_month t))))"
    if "PARTITION_COLUMN \<notin> set (columns df)" "''Date'' \<notin> set (columns df)" for n t
    using that P [of n] D [of n] L [of n]
    by (simp add: add_metadata_columns_def partition_values_def Let_def column_set_scalar)
  have sb: "partition_values p (save_bronze conv p df)
     = (if p \<in> set (columns df) then Inr (column df p)
        else if ''Date'' \<in> set (columns df)
        then (case to_datetime conv (column df ''Date'') of
                Inl e \<Rightarrow> Inl e | Inr ds \<Rightarrow> Inr (map to_period_M ds))
        else Inr (replicate (len df) (Some (Period 2025 11))))"
  proof (cases "to_datetime conv (column df ''Date'')")
    case (Inl e)
    then show ?thesis
      by (simp add: save_bronze_def partition_values_def column_set_scalar)
  next
    case (Inr ds)
    have "length (map to_period_M ds) = length (rows df)"
      using to_datetime_length [OF Inr] by (simp add: column_def)
    then have "column (set_series p (map to_period_M ds) df) p = map to_period_M ds"
      by (rule column_set_series)
    then show ?thesis
      using Inr by (simp add: save_bronze_def partition_values_def column_set_scalar)
  qed
  have d: "partition_values PARTITION_COLUMN (add_metadata_columns conv now today df cube_name)
        = partition_values PARTITION_COLUMN (add_metadata_columns conv now' today' df cube_name)"
    if "PARTITION_COLUMN \<in> set (columns df) \<or> ''Date'' \<in> set (columns df) \<or>
      (dt_year today = dt_year today' \<and> dt_month today = dt_month today')"
  proof (cases "PARTITION_COLUMN \<in> set (columns df)")
    case True
    then show ?thesis by (simp add: a)
  next
    case False
    then show ?thesis
      using that by (cases "''Date'' \<in> set (columns df)") (simp_all add: b c)
  qed
  show ?thesis
    using a b c d sb by blast
qed


theorem partition_assignment_witness:
  "partition_values PARTITION_COLUMN
     (add_metadata_columns (\<lambda>_. None) (Datetime 2025 11 3 0) (Datetime 2025 11 3 0) ex_dated ''sales'')
     = Inr [Some (Period 2025 1), Some (Period 2024 12)] \<and>
   partition_values PARTITION_COLUMN
     (add_metadata_columns (\<lambda>_. None) (Datetime 2025 11 3 0) (Datetime 2025 11 3 0) ex_third ''sales'')
     = partition_values PARTITION_COLUMN
     (add_metadata_columns (\<lambda>_. None) (Datetime 2025 11 30 9) (Datetime 2025 11 30 9) ex_third ''sales'')"
proof -
  have "PARTITION_COLUMN \<notin> set (columns ex_dated) \<and> ''Date'' \<in> set (columns ex_dated)"
    by (simp add: ex_dated_def PARTITION_COLUMN_def)
  moreover have "to_datetime (\<lambda>_. None) (column ex_dated ''Date'')
      = Inr [Some (Datetime 2025 1 15 0), Some (Datetime 2024 12 31 7)]"
    by (simp add: ex_dated_def column_def)
  ultimately have "partition_values PARTITION_COLUMN
     (add_metadata_columns (\<lambda>_. None) (Datetime 2025 11 3 0) (Datetime 2025 11 3 0) ex_dated ''sales'')
     = Inr [Some (Period 2025 1), Some (Period 2024 12)]"
    using partition_assignment [of ex_dated "\<lambda>_. None" "Datetime 2025 11 3 0" "Datetime 2025 11 3 0" "''sales''"]
    by (simp add: to_period_M_def)
  moreover have "partition_values PARTITION_COLUMN
     (add_metadata_columns (\<lambda>_. None) (Datetime 2025 11 3 0) (Datetime 2025 11 3 0) ex_third ''sales'')
     = partition_values PARTITION_COLUMN
     (add_metadata_columns (\<lambda>_. None) (Datetime 2025 11 30 9) (Datetime 2025 11 30 9) ex_third ''sales'')"
    using partition_assignment [of ex_third "\<lambda>_. None" "Datetime 2025 11 3 0" "Datetime 2025 11 3 0" "''sales''"
        "Datetime 2025 11 30 9" "Datetime 2025 11 30 9"]
    by simp
  ultimately show ?thesis
    by blast
qed

lemma hashed_dimension_rows:
  assumes "r \<in> set (rows (hashed_dimension md5 str_of df c))"
  shows "r (c @ ''Key'') = Some (Str (generate_surrogate_key md5 str_of [r c]))"
proof -
  let ?vs = "drop_duplicates (column df c)"
  let ?dim = "distinct_column df c"
  have col: "column ?dim c = ?vs"
    by (simp add: distinct_column_def column_def comp_def)
  have rs: "rows (hashed_dimension md5 str_of df c) =
      map (\<lambda>v. ((\<lambda>_. None)(c := v))(c @ ''Key'' := Some (Str (generate_surrogate_key md5 str_of [v])))) ?vs"
    unfolding hashed_dimension_def Let_def col
    by (simp add: set_series_def distinct_column_def zip_map1 zip_map2 zip_same_conv_map comp_def)
  from assms obtain v where "r = ((\<lambda>_. None)(c := v))(c @ ''Key'' := Some (Str (generate_surrogate_key md5 str_of [v])))"
    unfolding rs by auto
  then show ?thesis
    by simp
qed

lemma region_dimensions_lookup:
  assumes "map_of (region_dimensions md5 str_of df cols acc) k = Some d"
  shows "(\<exists>c \<in> set cols. k = ''Dim'' @ c \<and> d = hashed_dimension md5 str_of df c) \<or>
         map_of acc k = Some d"
  using assms
proof (induction cols arbitrary: acc)
  case Nil
  then show ?case by simp
next
  case (Cons col cols)
  show ?case
  proof (cases "col \<in> set (columns df)")
    case True
    with Cons.prems have
      "map_of (region_dimensions md5 str_of df cols
         (AList.update (''Dim'' @ col) (hashed_dimension md5 str_of df col) acc)) k = Some d"
      by simp
    from Cons.IH [OF this] show ?thesis
      by (auto simp: update_conv split: if_splits)
  next
    case False
    with Cons.prems have "map_of (region_dimensions md5 str_of df cols acc) k = Some d"
      by simp
    from Cons.IH [OF this] show ?thesis
      by auto
  qed
qed

lemma build_dimensions_hashed:
  assumes "build_dimensions md5 str_of df = Inr dims"
    and "c \<in> {''Region'', ''Country'', ''City'', ''Product''}"
    and "map_of dims (''Dim'' @ c) = Some d"
  shows "d = hashed_dimension md5 str_of df c"
proof -
  let ?first = "if ''Date'' \<in> set (columns df)
            then (let dim_date = distinct_column df ''Date''
                  in case date_keys (column dim_date ''Date'') of
                       Inl e \<Rightarrow> Inl e
                     | Inr ks \<Rightarrow> Inr [(''DimDate'', set_series ''DateKey'' ks dim_date)])
            else Inr []"
  let ?k = "''Dim'' @ c"
  obtain dims0 where f: "?first = Inr dims0"
    using assms(1) unfolding build_dimensions_def by (cases ?first) simp_all
  let ?dims1 = "region_dimensions md5 str_of df [''Region'', ''Country'', ''City''] dims0"
  have b: "dims = (if ''Product'' \<in> set (columns df)
                   then AList.update ''DimProduct'' (hashed_dimension md5 str_of df ''Product'') ?dims1
                   else ?dims1)"
    using assms(1) unfolding build_dimensions_def f by (simp add: Let_def del: region_dimensions.simps)
  have m0: "map_of dims0 ?k = None"
    using f assms(2) by (auto simp: Let_def split: if_splits sum.splits)
  have m1: "d = hashed_dimension md5 str_of df c" if "map_of ?dims1 ?k = Some d"
    using region_dimensions_lookup [OF that] m0 by auto
  show ?thesis
  proof (cases "''Product'' \<in> set (columns df) \<and> c = ''Product''")
    case True
    then show ?thesis
      using assms(3) unfolding b by (simp add: update_conv del: region_dimensions.simps)
  next
    case False
    then have "map_of ?dims1 ?k = Some d"
      using assms(3) unfolding b by (auto simp: update_conv simp del: region_dimensions.simps split: if_splits)
    then show ?thesis
      by (rule m1)
  qed
qed

text \<open>
  C4: the surrogate key depends on the values' string forms only, so equal string
  forms give equal keys; and in every hashed dimension table that \<open>build_dimensions\<close>
  returns, the key of a row is the key of its natural value, so a value that occurs in
  two dimension tables has the same key in both.
\<close>

theorem surrogate_key_deterministic:
  "(map str_of xs = map str_of ys \<longrightarrow>
      generate_surrogate_key md5 str_of xs = generate_surrogate_key md5 str_of ys) \<and>
   (build_dimensions md5 str_of df = Inr dims \<and>
    c1 \<in> {''Region'', ''Country'', ''City'', ''Product''} \<and>
    c2 \<in> {''Region'', ''Country'', ''City'', ''Product''} \<and>
    map_of dims (''Dim'' @ c1) = Some d1 \<and> map_of dims (''Dim'' @ c2) = Some d2 \<and>
    r1 \<in> set (rows d1) \<and> r2 \<in> set (rows d2) \<and> str_of (r1 c1) = str_of (r2 c2) \<longrightarrow>
      r1 (c1 @ ''Key'') = Some (Str (generate_surrogate_key md5 str_of [r1 c1])) \<and>
      r1 (c1 @ ''Key'') = r2 (c2 @ ''Key''))"
proof (intro conjI impI)
  assume "map str_of xs = map str_of ys"
  then show "generate_surrogate_key md5 str_of xs = generate_surrogate_key md5 str_of ys"
    by (simp add: generate_surrogate_key_def)
next
  assume h: "build_dimensions md5 str_of df = Inr dims \<and>
    c1 \<in> {''Region'', ''Country'', ''City'', ''Product''} \<and>
    c2 \<in> {''Region'', ''Country'', ''City'', ''Product''} \<and>
    map_of dims (''Dim'' @ c1) = Some d1 \<and> map_of dims (''Dim'' @ c2) = Some d2 \<and>
    r1 \<in> set (rows d1) \<and> r2 \<in> set (rows d2) \<and> str_of (r1 c1) = str_of (r2 c2)"
  then have d1: "d1 = hashed_dimension md5 str_of df c1" and d2: "d2 = hashed_dimension md5 str_of df c2"
    using build_dimensions_hashed by blast+
  have k1: "r1 (c1 @ ''Key'') = Some (Str (generate_surrogate_key md5 str_of [r1 c1]))"
    using h d1 hashed_dimension_rows by blast
  have k2: "r2 (c2 @ ''Key'') = Some (Str (generate_surrogate_key md5 str_of [r2 c2]))"
    using h d2 hashed_dimension_rows by blast
  show "r1 (c1 @ ''Key'') = Some (Str (generate_surrogate_key md5 str_of [r1 c1]))"
    by (rule k1)
  show "r1 (c1 @ ''Key'') = r2 (c2 @ ''Key'')"
    using k1 k2 h by (simp add: generate_surrogate_key_def)
qed


theorem surrogate_key_deterministic_witness:
  "(rows (hashed_dimension toy_digest toy_str ex_places ''Region'') ! 0) ''RegionKey'' = Some (Str ''htroN'') \<and>
   (rows (hashed_dimension toy_digest toy_str ex_places ''City'') ! 1) ''CityKey'' = Some (Str ''htroN'')"
proof -
  let ?d1 = "hashed_dimension toy_digest toy_str ex_places ''Region''"
  let ?d2 = "hashed_dimension toy_digest toy_str ex_places ''City''"
  let ?r1 = "rows ?d1 ! 0"
  let ?r2 = "rows ?d2 ! 1"
  have b: "build_dimensions toy_digest toy_str ex_places = Inr [(''DimRegion'', ?d1), (''DimCity'', ?d2)]"
    by (simp add: build_dimensions_def ex_places_def)
  have l1: "length (rows ?d1) = 2" and l2: "length (rows ?d2) = 2"
    by (simp_all add: hashed_dimension_def distinct_column_def drop_duplicates_def column_def
        ex_places_def set_series_def Let_def)
  have m1: "?r1 \<in> set (rows ?d1)" and m2: "?r2 \<in> set (rows ?d2)"
    using l1 l2 by (simp_all only: nth_mem zero_less_numeral one_less_numeral_iff semiring_norm)
  have v1: "?r1 ''Region'' = Some (Str ''North'')" and v2: "?r2 ''City'' = Some (Str ''North'')"
    by (simp_all add: hashed_dimension_def distinct_column_def drop_duplicates_def column_def
        ex_places_def set_series_def Let_def)
  have "?r1 (''Region'' @ ''Key'') = Some (Str (generate_surrogate_key toy_digest toy_str [?r1 ''Region''])) \<and>
        ?r1 (''Region'' @ ''Key'') = ?r2 (''City'' @ ''Key'')"
    using surrogate_key_deterministic [of toy_str "[]" "[]" toy_digest ex_places
        "[(''DimRegion'', ?d1), (''DimCity'', ?d2)]" "''Region''" "''City''" ?d1 ?d2 ?r1 ?r2]
      b m1 m2 v1 v2
    by auto
  then show ?thesis
    unfolding v1 by (auto simp: generate_surrogate_key_def toy_digest_def toy_str_def)
qed

section \<open>The history merge\<close>





lemma suffix_x_not_merge: "c @ ''_x'' \<noteq> ''_merge''"
proof
  assume "c @ ''_x'' = ''_merge''"
  then have "last (c @ ''_x'') = last ''_merge''"
    by (rule arg_cong)
  then show False
    by simp
qed

lemma suffix_y_not_merge: "c @ ''_y'' \<noteq> ''_merge''"
proof
  assume "c @ ''_y'' = ''_merge''"
  then have "last (c @ ''_y'') = last ''_merge''"
    by (rule arg_cong)
  then show False
    by simp
qed

lemma indicator_label_free:
  assumes "''_merge'' \<notin> set (columns L)" and "''_merge'' \<notin> set (columns R)"
  shows "''_merge'' \<notin> set (left_labels L R keys @ right_labels L R keys)"
proof
  assume "''_merge'' \<in> set (left_labels L R keys @ right_labels L R keys)"
  then obtain c where c: "c \<in> set (columns L) \<or> c \<in> set (columns R)"
    and e: "''_merge'' = c \<or> ''_merge'' = c @ ''_x'' \<or> ''_merge'' = c @ ''_y''"
    by (auto simp: left_labels_def right_labels_def right_columns_def split: if_splits)
  from e show False
    using c assms suffix_x_not_merge [of c] suffix_y_not_merge [of c] by auto
qed



lemma row_of_cells_last:
  assumes "k \<notin> set ns" and "length ns = length cs"
  shows "row_of_cells (ns @ [k]) (cs @ [v]) k = v"
proof -
  have n: "map_of (zip ns cs) k = None"
    using assms by (simp add: map_of_zip_is_None)
  have "map_of (zip (ns @ [k]) (cs @ [v])) k = Some v"
    using assms(2) by (simp add: map_add_def n)
  then show ?thesis
    by (simp add: row_of_cells_def)
qed

lemma labels_length:
  "length (left_labels L R keys @ right_labels L R keys) =
     length (map l (columns L) @ map f (right_columns R keys))"
  by (simp add: left_labels_def right_labels_def)

lemma unmatched_indicator:
  assumes "''_merge'' \<notin> set (columns L)" and "''_merge'' \<notin> set (columns R)"
  shows "unmatched_row L R keys l ''_merge'' = Some (Str ''left_only'')"
  using row_of_cells_last [OF indicator_label_free [OF assms] labels_length,
      of keys l "\<lambda>_. None" "Some (Str ''left_only'')"]
  by (simp add: unmatched_row_def merged_labels_def)

lemma matched_indicator:
  assumes "''_merge'' \<notin> set (columns L)" and "''_merge'' \<notin> set (columns R)"
  shows "matched_row L R keys l r ''_merge'' = Some (Str ''both'')"
  using row_of_cells_last [OF indicator_label_free [OF assms] labels_length,
      of keys l r "Some (Str ''both'')"]
  by (simp add: matched_row_def merged_labels_def)

lemma left_only_rows:
  assumes "''_merge'' \<notin> set (columns L)" and "''_merge'' \<notin> set (columns R)"
  shows "filter (\<lambda>r. r ''_merge'' = Some (Str ''left_only'')) (concat (map (merged_rows L R keys) ls)) =
         map (unmatched_row L R keys) (filter (\<lambda>l. partners keys R l = []) ls)"
proof (induction ls)
  case Nil
  then show ?case by simp
next
  case (Cons l ls)
  have "filter (\<lambda>r. r ''_merge'' = Some (Str ''left_only'')) (merged_rows L R keys l) =
        (if partners keys R l = [] then [unmatched_row L R keys l] else [])"
    by (simp add: merged_rows_def Let_def unmatched_indicator [OF assms] matched_indicator [OF assms])
  with Cons show ?case
    by simp
qed




lemma merge_success:
  assumes "pd_merge_left L R keys = Inr merged"
  shows "set keys \<subseteq> set (columns L)" and "''_merge'' \<notin> set (columns L)" and "''_merge'' \<notin> set (columns R)"
    and "merged = \<lparr>columns = merged_labels L R keys, rows = concat (map (merged_rows L R keys) (rows L))\<rparr>"
  using assms by (auto simp: pd_merge_left_def split: if_splits)



text \<open>
  The path without changes, in general: when the merge goes through and every incoming
  row has a partner in the history, the call returns the tagged batch and leaves the
  history frame as it was.
\<close>

lemma unchanged_batch_returned:
  assumes "pd_merge_left (tag_batch now df0) hist (''cube_name'' # SCD_TYPE2_COLUMNS) = Inr merged"
    and "\<And>l. l \<in> set (rows (tag_batch now df0)) \<Longrightarrow>
           partners (''cube_name'' # SCD_TYPE2_COLUMNS) hist l \<noteq> []"
  shows "apply_scd_type2 now df0 (Some hist) = (Inr (tag_batch now df0), Some hist)"
proof -
  note m = merge_success [OF assms(1)]
  have "filter (\<lambda>l. partners (''cube_name'' # SCD_TYPE2_COLUMNS) hist l = []) (rows (tag_batch now df0)) = []"
    using assms(2) by (simp add: filter_empty_conv)
  then have "filter (\<lambda>r. r ''_merge'' = Some (Str ''left_only'')) (rows merged) = []"
    unfolding m(4) using left_only_rows [OF m(2) m(3)] by simp
  then show ?thesis
    using assms(1) by (simp add: apply_scd_type2_def Let_def)
qed

lemmas merge_defs = pd_merge_left_def merged_rows_def unmatched_row_def matched_row_def partners_def
  merged_labels_def left_labels_def right_labels_def right_columns_def overlapping_def row_of_cells_def



text \<open>
  C2 (defect in the code): with a history that holds a closed and an open row, a batch
  that repeats the open row makes \<open>apply_scd_type2\<close> return the tagged batch alone, so
  the closed row is gone from the output; and a batch with a changed row overwrites
  the \<open>EndDate\<close> of the closed row in the caller's history before the call raises
  KeyError on the suffixed column labels.
\<close>

theorem apply_scd_type2_loses_closed_rows:
  "cells ex_history =
     [[Some (Str ''a''), Some (Num 10), Some (Num 1), Some (Time (Datetime 2025 1 1 0)),
       Some (Time (Datetime 2025 2 1 0)), Some (Bool False)],
      [Some (Str ''a''), Some (Num 20), Some (Num 2), Some (Time (Datetime 2025 2 1 0)),
       None, Some (Bool True)]] \<and>
   map is_closed (rows ex_history) = [True, False] \<and>
   (case apply_scd_type2 (Datetime 2025 3 1 0) ex_batch (Some ex_history) of
      (Inr out, _) \<Rightarrow>
        columns out = columns ex_history \<and>
        map is_closed (rows out) = [False] \<and>
        cells out =
          [[Some (Str ''a''), Some (Num 20), Some (Num 2), Some (Time (Datetime 2025 3 1 0)),
            None, Some (Bool True)]]
    | (Inl e, _) \<Rightarrow> False) \<and>
   (case apply_scd_type2 (Datetime 2025 3 1 0) ex_changed_batch (Some ex_history) of
      (Inl e, Some h) \<Rightarrow>
        e = KeyError \<and>
        cells h =
          [[Some (Str ''a''), Some (Num 10), Some (Num 1), Some (Time (Datetime 2025 1 1 0)),
            Some (Time (Datetime 2025 3 1 0)), Some (Bool False)],
           [Some (Str ''a''), Some (Num 20), Some (Num 2), Some (Time (Datetime 2025 2 1 0)),
            Some (Time (Datetime 2025 3 1 0)), Some (Bool False)]]
    | _ \<Rightarrow> False)"
  by (simp add: apply_scd_type2_def tag_batch_def set_scalar_def ex_batch_def ex_changed_batch_def
      ex_history_def SCD_TYPE2_COLUMNS_def merge_defs Let_def select_columns_def loc_set_def
      column_def cells_def is_closed_def)

text \<open>
  C3 (defect in the code): the second run on the same batch returns the incoming rows,
  tagged anew, instead of the history: the only row of the output is a new version
  with the second run's \<open>EffectiveDate\<close>.
\<close>

theorem apply_scd_type2_second_run_rewrites:
  "(case apply_scd_type2 (Datetime 2025 2 1 0) ex_batch None of
      (Inr first, _) \<Rightarrow>
        cells first =
          [[Some (Str ''a''), Some (Num 20), Some (Num 2), Some (Time (Datetime 2025 2 1 0)),
            None, Some (Bool True)]] \<and>
        (case apply_scd_type2 (Datetime 2025 3 1 0) ex_batch (Some first) of
           (Inr second, _) \<Rightarrow>
             cells second =
               [[Some (Str ''a''), Some (Num 20), Some (Num 2), Some (Time (Datetime 2025 3 1 0)),
                 None, Some (Bool True)]] \<and>
             filter (\<lambda>c. c \<notin> set (cells first)) (cells second) = cells second
         | (Inl e, _) \<Rightarrow> False)
    | (Inl e, _) \<Rightarrow> False)"
  by (simp add: apply_scd_type2_def tag_batch_def set_scalar_def ex_batch_def
      SCD_TYPE2_COLUMNS_def merge_defs Let_def cells_def)

end
